theory Spec2Isabelle
  imports Complex_Main "HOL-Library.Sublist" "HOL-Library.Char_ord" "HOL-Library.List_Lexorder"
begin

section \<open>Python values shared by the three modules\<close>

text \<open>
  Exceptions are values. Each constructor is one exception class that the modelled
  functions can raise; the string is the message or the missing key.
\<close>

datatype py_error =
    ValueError string
  | KeyError string
  | RequestException string
  | BadZipFile string
  | ZlibError string

text \<open>
  The numeric columns of a pandas frame are IEEE doubles. The model keeps the special
  values that decide how a division by zero behaves (a pandas column division never
  raises: it yields an infinity or not-a-number) and idealises every finite double to
  an exact rational, so rounding and the sign of zero are not represented.
\<close>

datatype fl = Fin rat | PInf | NInf | NaN

fun fl_neg :: "fl \<Rightarrow> fl" where
  "fl_neg (Fin a) = Fin (- a)"
| "fl_neg PInf = NInf"
| "fl_neg NInf = PInf"
| "fl_neg NaN = NaN"

fun fl_add :: "fl \<Rightarrow> fl \<Rightarrow> fl" where
  "fl_add NaN y = NaN"
| "fl_add x NaN = NaN"
| "fl_add (Fin a) (Fin b) = Fin (a + b)"
| "fl_add (Fin a) y = y"
| "fl_add x (Fin b) = x"
| "fl_add PInf PInf = PInf"
| "fl_add NInf NInf = NInf"
| "fl_add PInf NInf = NaN"
| "fl_add NInf PInf = NaN"

definition scale_inf :: "rat \<Rightarrow> fl \<Rightarrow> fl" where
  \<comment> \<open>an infinity times a finite factor: not-a-number at 0, else the sign decides\<close>
  "scale_inf a x = (if a = 0 then NaN else if 0 < a then x else fl_neg x)"

fun fl_mul :: "fl \<Rightarrow> fl \<Rightarrow> fl" where
  "fl_mul NaN y = NaN"
| "fl_mul x NaN = NaN"
| "fl_mul (Fin a) (Fin b) = Fin (a * b)"
| "fl_mul (Fin a) y = scale_inf a y"
| "fl_mul x (Fin b) = scale_inf b x"
| "fl_mul PInf y = y"
| "fl_mul NInf y = fl_neg y"

fun fl_div :: "fl \<Rightarrow> fl \<Rightarrow> fl" where
  "fl_div NaN y = NaN"
| "fl_div x NaN = NaN"
| "fl_div (Fin a) (Fin b) =
     (if b = 0 then (if a = 0 then NaN else if 0 < a then PInf else NInf)
      else Fin (a / b))"
| "fl_div (Fin a) y = Fin 0"
| "fl_div x (Fin b) = (if 0 \<le> b then x else fl_neg x)"
| "fl_div x y = NaN"

definition fillna0 :: "fl \<Rightarrow> fl" where
  \<comment> \<open>\<^verbatim>\<open>.fillna(0)\<close> on one cell\<close>
  "fillna0 x = (if x = NaN then Fin 0 else x)"

section \<open>summary.py\<close>

subsection \<open>\<^verbatim>\<open>convert_timestamp_to_date\<close>\<close>

text \<open>
  \<^verbatim>\<open>datetime.utcfromtimestamp(timestamp / 1000).strftime("%Y-%m-%d")\<close>: the timestamp
  is in milliseconds, the calendar day is the floor of the day count since 1970-01-01,
  and the proleptic Gregorian date of a day count is computed era by era (400 years are
  146097 days). \<^verbatim>\<open>utcfromtimestamp\<close> raises outside the years 1 to 9999;
  \<^verbatim>\<open>%Y\<close>, \<^verbatim>\<open>%m\<close> and \<^verbatim>\<open>%d\<close> are zero-padded decimals.
\<close>

definition civil_from_days :: "int \<Rightarrow> int \<times> int \<times> int" where
  "civil_from_days days =
     (let z = days + 719468;
          era = z div 146097;
          doe = z mod 146097;
          yoe = (doe - doe div 1460 + doe div 36524 - doe div 146096) div 365;
          doy = doe - (365 * yoe + yoe div 4 - yoe div 100);
          mp = (5 * doy + 2) div 153;
          d = doy - (153 * mp + 2) div 5 + 1;
          m = (if mp < 10 then mp + 3 else mp - 9);
          y = yoe + era * 400 + (if m \<le> 2 then 1 else 0)
      in (y, m, d))"

definition digit_char :: "nat \<Rightarrow> char" where
  "digit_char n = ''0123456789'' ! (n mod 10)"

fun zfill :: "nat \<Rightarrow> nat \<Rightarrow> string" where
  "zfill 0 n = []"
| "zfill (Suc w) n = zfill w (n div 10) @ [digit_char n]"

definition strftime_ymd :: "int \<times> int \<times> int \<Rightarrow> string" where
  "strftime_ymd ymd =
     (case ymd of (y, m, d) \<Rightarrow>
        zfill 4 (nat y) @ ''-'' @ zfill 2 (nat m) @ ''-'' @ zfill 2 (nat d))"

definition convert_timestamp_to_date :: "int \<Rightarrow> py_error + string" where
  "convert_timestamp_to_date timestamp =
     (let ymd = civil_from_days (timestamp div 86400000)
      in if fst ymd < 1 \<or> 9999 < fst ymd then Inl (ValueError ''year is out of range'')
         else Inr (strftime_ymd ymd))"

subsection \<open>The frames of \<^verbatim>\<open>summarize_liquidations\<close>\<close>

datatype side = BUY | SELL

text \<open>
  One row of a raw CSV file. The function reads the columns \<^verbatim>\<open>time\<close>,
  \<^verbatim>\<open>side\<close>, \<^verbatim>\<open>original_quantity\<close> and \<^verbatim>\<open>average_price\<close>; the remaining columns
  of the file only take part in the comparison of whole rows by
  \<^verbatim>\<open>drop_duplicates\<close>.
\<close>

record raw_event =
  time :: int
  side :: side
  original_quantity :: rat
  average_price :: rat
  other_columns :: "string list"

text \<open>The frame after lines 29 and 32: two columns added to every row.\<close>

record event = raw_event +
  date :: string
  volume :: rat

text \<open>One row of the table written to \<^verbatim>\<open>liquidation_summary.csv\<close>.\<close>

record summary_row =
  date_index :: string
  Shorts :: fl
  Longs :: fl
  price :: fl

definition drop_duplicates :: "'a list \<Rightarrow> 'a list" where
  \<comment> \<open>pandas keeps the first occurrence of every row, in the order of the frame\<close>
  "drop_duplicates xs = rev (remdups (rev xs))"

definition add_date_volume :: "raw_event \<Rightarrow> py_error + event" where
  "add_date_volume r =
     (case convert_timestamp_to_date (time r) of
        Inl e \<Rightarrow> Inl e
      | Inr d \<Rightarrow> Inr (raw_event.extend r
          (event.fields d (original_quantity r * average_price r))))"

fun apply_rows :: "('a \<Rightarrow> py_error + 'b) \<Rightarrow> 'a list \<Rightarrow> py_error + 'b list" where
  "apply_rows f [] = Inr []"
| "apply_rows f (x # xs) =
     (case f x of
        Inl e \<Rightarrow> Inl e
      | Inr y \<Rightarrow> (case apply_rows f xs of Inl e \<Rightarrow> Inl e | Inr ys \<Rightarrow> Inr (y # ys)))"

definition date_side_group :: "event list \<Rightarrow> string \<Rightarrow> side \<Rightarrow> event list" where
  \<comment> \<open>the rows of one \<^verbatim>\<open>groupby(["date", "side"])\<close> group\<close>
  "date_side_group all_data d s = filter (\<lambda>e. date e = d \<and> side e = s) all_data"

definition total_volume :: "event list \<Rightarrow> string \<Rightarrow> side \<Rightarrow> rat" where
  "total_volume all_data d s = sum_list (map volume (date_side_group all_data d s))"

definition total_liquidations :: "event list \<Rightarrow> string \<Rightarrow> side \<Rightarrow> rat" where
  "total_liquidations all_data d s = sum_list (map original_quantity (date_side_group all_data d s))"

definition group_average_price :: "event list \<Rightarrow> string \<Rightarrow> side \<Rightarrow> fl" where
  \<comment> \<open>line 44, for a group that exists\<close>
  "group_average_price all_data d s =
     fl_div (Fin (total_volume all_data d s)) (Fin (total_liquidations all_data d s))"

text \<open>
  \<^verbatim>\<open>pivot(...).fillna(0)\<close>: one row per date and, for each side that occurs anywhere
  in the frame, a \<^verbatim>\<open>total_volume\<close> and an \<^verbatim>\<open>average_price\<close> column. A cell
  whose group does not exist is missing and is filled with 0, and so is a not-a-number
  average.
\<close>

definition pivot_total_volume :: "event list \<Rightarrow> string \<Rightarrow> side \<Rightarrow> fl" where
  "pivot_total_volume all_data d s =
     (if date_side_group all_data d s = [] then Fin 0
      else fillna0 (Fin (total_volume all_data d s)))"

definition pivot_average_price :: "event list \<Rightarrow> string \<Rightarrow> side \<Rightarrow> fl" where
  "pivot_average_price all_data d s =
     (if date_side_group all_data d s = [] then Fin 0
      else fillna0 (group_average_price all_data d s))"

definition side_present :: "event list \<Rightarrow> side \<Rightarrow> bool" where
  "side_present all_data s = (\<exists>e \<in> set all_data. side e = s)"

definition overall_average_price :: "fl \<Rightarrow> fl \<Rightarrow> fl \<Rightarrow> fl \<Rightarrow> fl" where
  \<comment> \<open>lines 63 to 66\<close>
  "overall_average_price avg_buy vol_buy avg_sell vol_sell =
     fl_div (fl_add (fl_mul avg_buy vol_buy) (fl_mul avg_sell vol_sell))
            (fl_add vol_buy vol_sell)"

definition pivot_row :: "event list \<Rightarrow> string \<Rightarrow> summary_row" where
  "pivot_row all_data d =
     \<lparr>date_index = d,
      Shorts = pivot_total_volume all_data d BUY,
      Longs = pivot_total_volume all_data d SELL,
      price = overall_average_price
                (pivot_average_price all_data d BUY) (pivot_total_volume all_data d BUY)
                (pivot_average_price all_data d SELL) (pivot_total_volume all_data d SELL)\<rparr>"

definition pivot_index :: "event list \<Rightarrow> string list" where
  \<comment> \<open>the index of the pivot: the distinct dates in ascending order of the strings\<close>
  "pivot_index all_data = sort (remdups (map date all_data))"

text \<open>
  \<^verbatim>\<open>summarize_liquidations\<close> takes the frames read from the files that the glob
  found. \<open>dated_frame\<close> is \<^verbatim>\<open>all_data\<close> after line 32: concatenated
  (\<^verbatim>\<open>pd.concat\<close> raises on an empty list), without duplicate rows, with the two
  columns added.
\<close>

definition dated_frame :: "raw_event list list \<Rightarrow> py_error + event list" where
  "dated_frame df_list =
     (if df_list = [] then Inl (ValueError ''No objects to concatenate'')
      else apply_rows add_date_volume (drop_duplicates (concat df_list)))"

text \<open>
  The function returns nothing in the source; the value here is the table it writes
  to the summary file, or the exception that leaves the function. Reading the column
  of a side that occurs nowhere in the frame raises \<^verbatim>\<open>KeyError\<close>.
\<close>

definition summarize_liquidations :: "raw_event list list \<Rightarrow> py_error + summary_row list" where
  "summarize_liquidations df_list =
     (case dated_frame df_list of
        Inl e \<Rightarrow> Inl e
      | Inr all_data \<Rightarrow>
          if \<not> side_present all_data BUY then Inl (KeyError ''Average Buy Price'')
          else if \<not> side_present all_data SELL then Inl (KeyError ''Average Sell Price'')
          else Inr (map (pivot_row all_data) (pivot_index all_data)))"

section \<open>data.py\<close>

subsection \<open>\<^verbatim>\<open>get_existing_files\<close>\<close>

text \<open>
  The remote store holds the object keys under the prefix, in listing order, and
  answers one listing request with at most \<open>max_keys\<close> of them (1000 for the store
  the source addresses). \<^verbatim>\<open>get_existing_files\<close> sends one request, with no marker,
  and reads the \<^verbatim>\<open>Key\<close> of every \<^verbatim>\<open>Contents\<close> element of that one response.
\<close>

record bucket =
  objects :: "string list"
  max_keys :: nat
  reachable :: bool

datatype listing_response = ConnectionFailed | ListBucketResult "string list"

definition requests_get_listing :: "bucket \<Rightarrow> listing_response" where
  "requests_get_listing b =
     (if reachable b then ListBucketResult (take (max_keys b) (objects b))
      else ConnectionFailed)"

definition endswith :: "string \<Rightarrow> string \<Rightarrow> bool" where
  "endswith s suf = suffix suf s"

definition get_existing_files :: "bucket \<Rightarrow> py_error + string list" where
  "get_existing_files b =
     (case requests_get_listing b of
        ConnectionFailed \<Rightarrow> Inl (RequestException ''connection failed'')
      | ListBucketResult keys \<Rightarrow> Inr (filter (\<lambda>key. endswith key ''.zip'') keys))"

subsection \<open>\<^verbatim>\<open>extract_date_from_filename\<close>\<close>

text \<open>
  \<^verbatim>\<open>str.split(sep)\<close> for a non-empty separator: the pieces between the
  occurrences of \<open>sep\<close>, found from left to right without overlap. \<open>acc\<close> holds
  the current piece, reversed.
\<close>

function py_split :: "string \<Rightarrow> string \<Rightarrow> string \<Rightarrow> string list" where
  "py_split sep acc [] = [rev acc]"
| "py_split sep acc (c # cs) =
     (if sep \<noteq> [] \<and> prefix sep (c # cs)
      then rev acc # py_split sep [] (drop (length sep) (c # cs))
      else py_split sep (c # acc) cs)"
  by pat_completeness auto
termination
  by (relation "measure (\<lambda>(sep, acc, s). length s)") auto

definition extract_date_from_filename :: "string \<Rightarrow> string" where
  "extract_date_from_filename filename =
     hd (py_split ''.'' [] (last (py_split ''liquidationSnapshot-'' [] filename)))"

subsection \<open>\<^verbatim>\<open>get_local_dates\<close>\<close>

text \<open>
  The local store maps a directory path to its entries, file name and content. A
  directory that does not exist has no entries. \<^verbatim>\<open>os.path.join\<close> and
  \<^verbatim>\<open>os.path.basename\<close> are the POSIX ones; \<^verbatim>\<open>glob\<close> with the pattern
  \<^verbatim>\<open>*.csv\<close> yields the entries whose name ends in \<^verbatim>\<open>.csv\<close> and does not
  start with a dot.
\<close>

type_synonym directory = "(string \<times> string) list"
type_synonym fs = "string \<Rightarrow> directory"

definition path_join :: "string \<Rightarrow> string \<Rightarrow> string" where
  "path_join a b =
     (if b \<noteq> [] \<and> hd b = CHR ''/'' then b
      else if a = [] \<or> last a = CHR ''/'' then a @ b
      else a @ ''/'' @ b)"

definition basename :: "string \<Rightarrow> string" where
  "basename p = rev (takeWhile (\<lambda>c. c \<noteq> CHR ''/'') (rev p))"

definition csv_pattern :: "string \<Rightarrow> bool" where
  "csv_pattern name = (name \<noteq> [] \<and> hd name \<noteq> CHR ''.'' \<and> endswith name ''.csv'')"

definition glob_csv :: "fs \<Rightarrow> string \<Rightarrow> string list" where
  "glob_csv store dir = map (path_join dir) (filter csv_pattern (map fst (store dir)))"

definition get_local_dates :: "fs \<Rightarrow> string \<Rightarrow> string \<Rightarrow> string \<Rightarrow> string set" where
  "get_local_dates store base_path symbol market =
     (let local_files = glob_csv store (path_join (path_join base_path symbol) market)
      in set (map (\<lambda>file. extract_date_from_filename (basename file)) local_files))"

subsection \<open>\<^verbatim>\<open>download_and_extract_zip\<close>\<close>

text \<open>
  What the download returns, as the two library calls see it.
  \<^verbatim>\<open>requests.get\<close> raises a \<^verbatim>\<open>RequestException\<close> when the transfer fails,
  and \<^verbatim>\<open>raise_for_status\<close> raises one for a status from 400 to 599.
  \<^verbatim>\<open>zipfile.ZipFile\<close> raises \<^verbatim>\<open>BadZipFile\<close> when the bytes hold no archive
  directory. \<^verbatim>\<open>extractall\<close> then writes the members in order, each one by
  opening the member, creating the target file and copying the decompressed bytes:
  a member whose local header is damaged raises \<^verbatim>\<open>BadZipFile\<close> before the
  target is created, a member whose checksum is wrong raises \<^verbatim>\<open>BadZipFile\<close>
  when its last block is read, after the target is created and the earlier blocks
  are copied, and a member whose compressed stream is damaged raises
  \<^verbatim>\<open>zlib.error\<close> after the blocks before the damage are copied.
  \<open>written\<close> is what reaches the target file. Member names are plain file names,
  and the directories of lines 57 to 65 can be created.
\<close>

datatype member_state = Intact | BadHeader | BadCrc | BadStream

record zip_member =
  filename :: string
  written :: string
  state :: member_state

datatype payload = NotZip | ZipArchive "zip_member list"

datatype http_response = TransferFailed | Response nat payload

record fetch_result =
  store_after :: fs
  printed :: "string list"
  raised :: "py_error option"

definition write_file :: "directory \<Rightarrow> string \<Rightarrow> string \<Rightarrow> directory" where
  "write_file dir name bytes = (name, bytes) # filter (\<lambda>entry. fst entry \<noteq> name) dir"

fun extractall :: "zip_member list \<Rightarrow> directory \<Rightarrow> directory \<times> py_error option" where
  "extractall [] dir = (dir, None)"
| "extractall (m # ms) dir =
     (case state m of
        Intact \<Rightarrow> extractall ms (write_file dir (filename m) (written m))
      | BadHeader \<Rightarrow> (dir, Some (BadZipFile ''Bad magic number for file header''))
      | BadCrc \<Rightarrow>
          (write_file dir (filename m) (written m), Some (BadZipFile ''Bad CRC-32''))
      | BadStream \<Rightarrow>
          (write_file dir (filename m) (written m),
           Some (ZlibError ''Error -3 while decompressing data'')))"

definition archive_url :: "string \<Rightarrow> string \<Rightarrow> string \<Rightarrow> string" where
  "archive_url symbol market date_str =
     ''https://data.binance.vision/data/futures/'' @ market
       @ ''/daily/liquidationSnapshot/'' @ symbol @ ''/'' @ symbol
       @ ''-liquidationSnapshot-'' @ date_str @ ''.zip''"

text \<open>
  The function returns \<^verbatim>\<open>None\<close> on every path that returns, so the result
  records what it leaves behind: the store, the lines printed, and the exception that
  leaves the function, if any. The \<^verbatim>\<open>try\<close> catches \<^verbatim>\<open>RequestException\<close>
  and \<^verbatim>\<open>BadZipFile\<close> only.
\<close>

definition download_and_extract_zip ::
  "(string \<Rightarrow> http_response) \<Rightarrow> string \<Rightarrow> int \<times> int \<times> int \<Rightarrow> string \<Rightarrow> string \<Rightarrow> fs
     \<Rightarrow> fetch_result" where
  "download_and_extract_zip http symbol dt market base_extract_to store =
     (let extract_to = path_join (path_join base_extract_to symbol) market;
          url = archive_url symbol market (strftime_ymd dt)
      in case http url of
           TransferFailed \<Rightarrow>
             \<lparr>store_after = store, printed = [''Failed to download '' @ url], raised = None\<rparr>
         | Response status body \<Rightarrow>
             if 400 \<le> status \<and> status < 600
             then \<lparr>store_after = store, printed = [''Failed to download '' @ url],
                   raised = None\<rparr>
             else
               (case body of
                  NotZip \<Rightarrow>
                    \<lparr>store_after = store, printed = [''Failed to extract '' @ url],
                     raised = None\<rparr>
                | ZipArchive members \<Rightarrow>
                    (case extractall members (store extract_to) of
                       (dir, None) \<Rightarrow>
                         \<lparr>store_after = store(extract_to := dir), printed = [],
                          raised = None\<rparr>
                     | (dir, Some (BadZipFile msg)) \<Rightarrow>
                         \<lparr>store_after = store(extract_to := dir),
                          printed = [''Failed to extract '' @ url], raised = None\<rparr>
                     | (dir, Some e) \<Rightarrow>
                         \<lparr>store_after = store(extract_to := dir), printed = [],
                          raised = Some e\<rparr>)))"

subsection \<open>\<^verbatim>\<open>get_new_data\<close>, lines 89 to 93\<close>

definition missing_dates :: "string set \<Rightarrow> string set \<Rightarrow> string set" where
  \<comment> \<open>line 93\<close>
  "missing_dates existing_dates local_dates = existing_dates - local_dates"

definition get_new_data_missing ::
  "bucket \<Rightarrow> fs \<Rightarrow> string \<Rightarrow> string \<Rightarrow> string \<Rightarrow> py_error + string set" where
  "get_new_data_missing b store symbol market base_extract_to =
     (case get_existing_files b of
        Inl e \<Rightarrow> Inl e
      | Inr existing_files \<Rightarrow>
          (let existing_dates = set (map extract_date_from_filename existing_files);
               local_dates = get_local_dates store base_extract_to symbol market
           in Inr (missing_dates existing_dates local_dates)))"

section \<open>Example inputs\<close>

text \<open>
  Millisecond timestamps of 2024-01-01 and 2024-01-02, 00:00 UTC, and small frames
  built from them.
\<close>

definition jan1 :: int where "jan1 = 1704067200000"
definition jan2 :: int where "jan2 = 1704153600000"

definition raw :: "int \<Rightarrow> side \<Rightarrow> rat \<Rightarrow> rat \<Rightarrow> raw_event" where
  "raw t s q p =
     \<lparr>time = t, side = s, original_quantity = q, average_price = p, other_columns = []\<rparr>"



definition unfilled_buy_day :: "raw_event list list" where
  \<comment> \<open>the only record of the first day has average price 0\<close>
  "unfilled_buy_day = [[raw jan1 BUY 1 0], [raw jan2 SELL 1 100]]"

definition unfilled_buy_frame :: "event list" where
  "unfilled_buy_frame =
     [\<lparr>time = jan1, side = BUY, original_quantity = 1, average_price = 0,
        other_columns = [], date = ''2024-01-01'', volume = 0\<rparr>,
      \<lparr>time = jan2, side = SELL, original_quantity = 1, average_price = 100,
        other_columns = [], date = ''2024-01-02'', volume = 100\<rparr>]"

definition only_buys :: "raw_event list list" where
  \<comment> \<open>one file, one unfilled BUY order: no SELL anywhere\<close>
  "only_buys = [[raw jan1 BUY 1 0]]"

definition only_buys_frame :: "event list" where
  "only_buys_frame =
     [\<lparr>time = jan1, side = BUY, original_quantity = 1, average_price = 0,
        other_columns = [], date = ''2024-01-01'', volume = 0\<rparr>]"

definition buys_then_sell :: "raw_event list list" where
  "buys_then_sell = [[raw jan1 BUY 2 100, raw jan1 BUY 1 130], [raw jan2 SELL 1 200]]"

definition buys_then_sell_frame :: "event list" where
  "buys_then_sell_frame =
     [\<lparr>time = jan1, side = BUY, original_quantity = 2, average_price = 100,
        other_columns = [], date = ''2024-01-01'', volume = 200\<rparr>,
      \<lparr>time = jan1, side = BUY, original_quantity = 1, average_price = 130,
        other_columns = [], date = ''2024-01-01'', volume = 130\<rparr>,
      \<lparr>time = jan2, side = SELL, original_quantity = 1, average_price = 200,
        other_columns = [], date = ''2024-01-02'', volume = 200\<rparr>]"



text \<open>
  A listing of two published days, each an archive and its checksum file, behind a
  store that caps a response at two keys or at a thousand; a local store that is
  empty or holds the first day; and servers answering every request alike.
\<close>

definition zip_key :: "string \<Rightarrow> string" where
  "zip_key d =
     ''data/futures/um/daily/liquidationSnapshot/BTCUSDT/BTCUSDT-liquidationSnapshot-''
       @ d @ ''.zip''"

definition published_keys :: "string list" where
  "published_keys =
     [zip_key ''2024-01-01'', zip_key ''2024-01-01'' @ ''.CHECKSUM'',
      zip_key ''2024-01-02'', zip_key ''2024-01-02'' @ ''.CHECKSUM'']"

definition capped_bucket :: bucket where
  "capped_bucket = \<lparr>objects = published_keys, max_keys = 2, reachable = True\<rparr>"

definition small_bucket :: bucket where
  "small_bucket = \<lparr>objects = published_keys, max_keys = 1000, reachable = True\<rparr>"

definition empty_store :: fs where
  "empty_store dir = []"

definition one_day_store :: fs where
  "one_day_store dir =
     (if dir = ''./data/BTCUSDT/um''
      then [(''BTCUSDT-liquidationSnapshot-2024-01-01.csv'', ''time,side'')] else [])"

definition bad_crc_server :: "string \<Rightarrow> http_response" where
  "bad_crc_server url =
     Response 200 (ZipArchive
       [\<lparr>filename = ''BTCUSDT-liquidationSnapshot-2024-01-02.csv'', written = [],
         state = BadCrc\<rparr>])"

definition bad_stream_server :: "string \<Rightarrow> http_response" where
  "bad_stream_server url =
     Response 200 (ZipArchive
       [\<lparr>filename = ''BTCUSDT-liquidationSnapshot-2024-01-02.csv'', written = [],
         state = BadStream\<rparr>])"

definition not_found_server :: "string \<Rightarrow> http_response" where
  "not_found_server url = Response 404 NotZip"

definition jan2_url :: string where
  "jan2_url = ''https://data.binance.vision/data/futures/um/daily/liquidationSnapshot/BTCUSDT/BTCUSDT-liquidationSnapshot-2024-01-02.zip''"

section \<open>Properties of \<^verbatim>\<open>summarize_liquidations\<close>\<close>

subsection \<open>Auxiliary facts\<close>

lemma drop_duplicates_set [simp]: "set (drop_duplicates xs) = set xs"
  by (simp add: drop_duplicates_def)

lemma drop_duplicates_distinct [simp]: "distinct (drop_duplicates xs)"
  by (simp add: drop_duplicates_def)

lemma fl_mul_zero_cases: "fl_mul x (Fin 0) = Fin 0 \<or> fl_mul x (Fin 0) = NaN"
  by (cases x) (simp_all add: scale_inf_def)

lemma zero_volume_price: "overall_average_price a (Fin 0) b (Fin 0) = NaN"
  unfolding overall_average_price_def
  using fl_mul_zero_cases[of a] fl_mul_zero_cases[of b] by auto

lemma pivot_total_volume_eq: "pivot_total_volume all_data d s = Fin (total_volume all_data d s)"
  by (simp add: pivot_total_volume_def total_volume_def fillna0_def)

lemma summarize_Inr:
  assumes "summarize_liquidations df_list = Inr rows"
  obtains all_data where
    "dated_frame df_list = Inr all_data"
    "side_present all_data BUY" "side_present all_data SELL"
    "rows = map (pivot_row all_data) (pivot_index all_data)"
  using assms unfolding summarize_liquidations_def
  by (auto split: if_splits sum.splits)

lemma date_index_pivot_row: "map date_index (map (pivot_row all_data) ds) = ds"
  by (induction ds) (simp_all add: pivot_row_def)

lemma pivot_index_strict: "sorted_wrt (<) (pivot_index all_data)"
  unfolding pivot_index_def by (simp add: strict_sorted_iff)


lemma total_volume_empty:
  "date_side_group all_data d s = [] \<Longrightarrow> total_volume all_data d s = 0"
  by (simp add: total_volume_def)

lemma pivot_average_price_absent:
  "date_side_group all_data d s = [] \<Longrightarrow> pivot_average_price all_data d s = Fin 0"
  by (simp add: pivot_average_price_def)

lemma pivot_average_price_present:
  "date_side_group all_data d s \<noteq> [] \<Longrightarrow>
   pivot_average_price all_data d s = fillna0 (group_average_price all_data d s)"
  by (simp add: pivot_average_price_def)

text \<open>With both sides in the frame the table is written, one row for each date.\<close>

lemma summarize_two_sided:
  "dated_frame df_list = Inr all_data \<Longrightarrow> side_present all_data BUY \<Longrightarrow>
   side_present all_data SELL \<Longrightarrow>
   summarize_liquidations df_list = Inr (map (pivot_row all_data) (pivot_index all_data))"
  by (simp add: summarize_liquidations_def)

lemma date_has_row:
  "d \<in> set (map date all_data) \<Longrightarrow>
   pivot_row all_data d \<in> set (map (pivot_row all_data) (pivot_index all_data))"
  by (simp add: pivot_index_def)

text \<open>
  A side without records adds exactly 0 to both sums of lines 63 to 66, so the price
  is the other side's product divided by its volume. Only \<open>0 * 0 = 0\<close> and
  \<open>x + 0 = x\<close> are used, which hold of doubles as well; the quotient is left as
  the code computes it.
\<close>

lemma fl_add_zero_right: "fl_add x (Fin 0) = x"
  by (cases x) simp_all

lemma fl_add_zero_left: "fl_add (Fin 0) x = x"
  by (cases x) simp_all

lemma absent_sell_price:
  "overall_average_price a v (Fin 0) (Fin 0) = fl_div (fl_mul a v) v"
  by (simp add: overall_average_price_def fl_add_zero_right)

lemma absent_buy_price:
  "overall_average_price (Fin 0) (Fin 0) a v = fl_div (fl_mul a v) v"
  by (simp add: overall_average_price_def fl_add_zero_left)

text \<open>
  Where both sides occur somewhere in the corpus, a date without volume on either
  side has its row, and the price of that row is not-a-number: \<open>0 / 0\<close> on a float
  column raises nothing.
\<close>

lemma zero_volume_date_has_nan_row:
  assumes frame: "dated_frame df_list = Inr all_data"
    and both: "side_present all_data BUY" "side_present all_data SELL"
    and occurs: "d \<in> set (map date all_data)"
    and zero: "total_volume all_data d BUY = 0" "total_volume all_data d SELL = 0"
  shows "\<exists>rows r. summarize_liquidations df_list = Inr rows \<and> r \<in> set rows
       \<and> date_index r = d \<and> Shorts r = Fin 0 \<and> Longs r = Fin 0 \<and> price r = NaN"
proof -
  let ?rows = "map (pivot_row all_data) (pivot_index all_data)"
  let ?r = "pivot_row all_data d"
  have "summarize_liquidations df_list = Inr ?rows"
    using frame both by (rule summarize_two_sided)
  moreover have "?r \<in> set ?rows"
    using occurs by (rule date_has_row)
  moreover have "date_index ?r = d \<and> Shorts ?r = Fin 0 \<and> Longs ?r = Fin 0 \<and> price ?r = NaN"
    by (simp add: pivot_row_def pivot_total_volume_eq zero zero_volume_price)
  ultimately show ?thesis by blast
qed



subsection \<open>The claims about the aggregation\<close>



text \<open>
  C5. A date without volume on either side does not always get a row. In this corpus
  the one record is a BUY order with average price 0, so the volume of 2024-01-01 is
  0 on the BUY side and there is no SELL record at all; the pivot then has no
  \<^verbatim>\<open>Average Sell Price\<close> column, line 64 raises \<^verbatim>\<open>KeyError\<close>, and no row
  is written for the date.
\<close>

theorem zero_volume_one_sided_raises:
  "dated_frame only_buys = Inr only_buys_frame
   \<and> map date only_buys_frame = [''2024-01-01'']
   \<and> total_volume only_buys_frame ''2024-01-01'' BUY = 0
   \<and> total_volume only_buys_frame ''2024-01-01'' SELL = 0
   \<and> summarize_liquidations only_buys = Inl (KeyError ''Average Sell Price'')"
  by code_simp

text \<open>
  C6. With no local file the list of frames is empty, and the function does not
  return an empty table: \<^verbatim>\<open>pd.concat\<close> raises \<^verbatim>\<open>ValueError\<close>.
\<close>

theorem summarize_no_files_raises:
  "summarize_liquidations [] = Inl (ValueError ''No objects to concatenate'')"
  by (simp add: summarize_liquidations_def dated_frame_def)



text \<open>
  C9. The rows of the table are in strictly ascending order of their date labels, so
  no date has two rows. The labels are the \<^verbatim>\<open>%Y-%m-%d\<close> strings, which pandas
  orders as strings; with four-digit years that is the order of the calendar.
\<close>

theorem rows_strictly_ascending:
  "summarize_liquidations df_list = Inr rows \<Longrightarrow>
   sorted_wrt (<) (map date_index rows) \<and> distinct (map date_index rows)"
proof -
  assume "summarize_liquidations df_list = Inr rows"
  then obtain all_data where "rows = map (pivot_row all_data) (pivot_index all_data)"
    by (rule summarize_Inr)
  then have "map date_index rows = pivot_index all_data"
    by (simp only: date_index_pivot_row)
  moreover have "distinct (pivot_index all_data)"
    by (simp add: pivot_index_def)
  ultimately show ?thesis
    by (simp only: pivot_index_strict simp_thms)
qed

theorem rows_strictly_ascending_witness:
  "summarize_liquidations buys_then_sell =
     Inr [\<lparr>date_index = ''2024-01-01'', Shorts = Fin 330, Longs = Fin 0, price = Fin 110\<rparr>,
          \<lparr>date_index = ''2024-01-02'', Shorts = Fin 0, Longs = Fin 200, price = Fin 200\<rparr>]
   \<and> sorted_wrt (<) [''2024-01-01'', ''2024-01-02'']
   \<and> distinct [''2024-01-01'', ''2024-01-02'']"
proof -
  have h: "summarize_liquidations buys_then_sell =
     Inr [\<lparr>date_index = ''2024-01-01'', Shorts = Fin 330, Longs = Fin 0, price = Fin 110\<rparr>,
          \<lparr>date_index = ''2024-01-02'', Shorts = Fin 0, Longs = Fin 200, price = Fin 200\<rparr>]"
    by code_simp
  from rows_strictly_ascending [OF h] h show ?thesis by simp
qed

text \<open>
  C10 does not hold for every single-sided date: the first day of this corpus has
  one BUY record with average price 0, so the side's own average is 0, and the row
  gets the price not-a-number, because the overall price divides by the total
  volume.
\<close>

theorem single_sided_zero_volume_counterexample:
  "dated_frame unfilled_buy_day = Inr unfilled_buy_frame
   \<and> map side (date_side_group unfilled_buy_frame ''2024-01-01'' BUY) = [BUY]
   \<and> date_side_group unfilled_buy_frame ''2024-01-01'' SELL = []
   \<and> group_average_price unfilled_buy_frame ''2024-01-01'' BUY = Fin 0
   \<and> summarize_liquidations unfilled_buy_day =
       Inr [\<lparr>date_index = ''2024-01-01'', Shorts = Fin 0, Longs = Fin 0, price = NaN\<rparr>,
            \<lparr>date_index = ''2024-01-02'', Shorts = Fin 0, Longs = Fin 100, price = Fin 100\<rparr>]"
  by code_simp

text \<open>
  C10, as the code has it. When both sides occur somewhere in the corpus, a date
  whose records are all on one side has its row: the absent side's column is 0, the
  present side's column is its volume, and the price is the present side's average
  price (its volume divided by its quantity, 0 where that is undefined) times its
  volume, divided by its volume again. That is the side's own average up to the
  rounding of the product and the quotient when the volume is not 0, and
  not-a-number when it is 0.
\<close>

theorem single_sided_day_row:
  assumes frame: "dated_frame df_list = Inr all_data"
    and both: "side_present all_data BUY" "side_present all_data SELL"
    and occurs: "d \<in> set (map date all_data)"
    and one: "\<forall>e \<in> set all_data. date e = d \<longrightarrow> side e = s"
  shows "\<exists>rows r. summarize_liquidations df_list = Inr rows \<and> r \<in> set rows
       \<and> date_index r = d
       \<and> (if s = BUY then Longs r else Shorts r) = Fin 0
       \<and> (if s = BUY then Shorts r else Longs r) = Fin (total_volume all_data d s)
       \<and> price r =
           fl_div (fl_mul (fillna0 (group_average_price all_data d s))
                          (Fin (total_volume all_data d s)))
                  (Fin (total_volume all_data d s))"
proof -
  let ?rows = "map (pivot_row all_data) (pivot_index all_data)"
  let ?r = "pivot_row all_data d"
  have rows: "summarize_liquidations df_list = Inr ?rows"
    using frame both by (rule summarize_two_sided)
  have mem: "?r \<in> set ?rows"
    using occurs by (rule date_has_row)
  have idx: "date_index ?r = d"
    by (simp add: pivot_row_def)
  obtain e where e: "e \<in> set all_data" "date e = d"
    using occurs by auto
  with one have "side e = s" by simp
  with e have present: "date_side_group all_data d s \<noteq> []"
    by (auto simp: date_side_group_def filter_empty_conv)
  have absent: "date_side_group all_data d s' = []" if "s' \<noteq> s" for s'
    using one that by (auto simp: date_side_group_def filter_empty_conv)
  have avg: "pivot_average_price all_data d s = fillna0 (group_average_price all_data d s)"
    using present by (rule pivot_average_price_present)
  have cols: "(if s = BUY then Longs ?r else Shorts ?r) = Fin 0
       \<and> (if s = BUY then Shorts ?r else Longs ?r) = Fin (total_volume all_data d s)
       \<and> price ?r =
           fl_div (fl_mul (fillna0 (group_average_price all_data d s))
                          (Fin (total_volume all_data d s)))
                  (Fin (total_volume all_data d s))"
  proof (cases s)
    case BUY
    have n: "date_side_group all_data d SELL = []"
      using absent[of SELL] BUY by simp
    show ?thesis
      using avg unfolding BUY
      by (simp add: pivot_row_def pivot_total_volume_eq total_volume_empty[OF n]
          pivot_average_price_absent[OF n] absent_sell_price)
  next
    case SELL
    have n: "date_side_group all_data d BUY = []"
      using absent[of BUY] SELL by simp
    show ?thesis
      using avg unfolding SELL
      by (simp add: pivot_row_def pivot_total_volume_eq total_volume_empty[OF n]
          pivot_average_price_absent[OF n] absent_buy_price)
  qed
  from rows mem idx cols show ?thesis by blast
qed

theorem single_sided_day_row_witness:
  "dated_frame buys_then_sell = Inr buys_then_sell_frame
   \<and> side_present buys_then_sell_frame BUY \<and> side_present buys_then_sell_frame SELL
   \<and> date_side_group buys_then_sell_frame ''2024-01-01'' SELL = []
   \<and> total_volume buys_then_sell_frame ''2024-01-01'' BUY = 330
   \<and> group_average_price buys_then_sell_frame ''2024-01-01'' BUY = Fin 110
   \<and> (\<exists>rows r. summarize_liquidations buys_then_sell = Inr rows \<and> r \<in> set rows
         \<and> date_index r = ''2024-01-01'' \<and> Longs r = Fin 0 \<and> Shorts r = Fin 330
         \<and> price r = Fin 110)"
proof -
  have f: "dated_frame buys_then_sell = Inr buys_then_sell_frame"
    by code_simp
  have b: "side_present buys_then_sell_frame BUY"
    by code_simp
  have s: "side_present buys_then_sell_frame SELL"
    by code_simp
  have occurs: "''2024-01-01'' \<in> set (map date buys_then_sell_frame)"
    by (simp add: buys_then_sell_frame_def)
  have one: "\<forall>e \<in> set buys_then_sell_frame. date e = ''2024-01-01'' \<longrightarrow> side e = BUY"
    by (simp add: buys_then_sell_frame_def)
  have none: "date_side_group buys_then_sell_frame ''2024-01-01'' SELL = []"
    by code_simp
  have tv: "total_volume buys_then_sell_frame ''2024-01-01'' BUY = 330"
    by code_simp
  have avg: "group_average_price buys_then_sell_frame ''2024-01-01'' BUY = Fin 110"
    by code_simp
  from single_sided_day_row [OF f b s occurs one] f b s none tv avg show ?thesis
    by (simp add: fillna0_def)
qed

section \<open>Properties of the synchronisation\<close>

text \<open>
  C2. The dates to fetch are the set difference of the remote dates and the local
  dates: line 93 is a function of the two sets alone, it is empty when the two sets
  agree and the whole remote set when nothing is local, and the value
  \<^verbatim>\<open>get_new_data\<close> computes from a listing and a store is that difference of the
  dates it extracts from the two.
\<close>

theorem missing_dates_is_set_difference:
  "missing_dates R L = R - L \<and> missing_dates R R = {} \<and> missing_dates R {} = R
   \<and> (get_existing_files b = Inr existing_files \<longrightarrow>
        get_new_data_missing b store symbol market base_extract_to =
          Inr (set (map extract_date_from_filename existing_files)
                 - get_local_dates store base_extract_to symbol market))"
  by (simp add: missing_dates_def get_new_data_missing_def)

theorem missing_dates_is_set_difference_witness:
  "get_existing_files small_bucket = Inr [zip_key ''2024-01-01'', zip_key ''2024-01-02'']
   \<and> get_local_dates one_day_store ''./data'' ''BTCUSDT'' ''um'' = {''2024-01-01''}
   \<and> get_new_data_missing small_bucket one_day_store ''BTCUSDT'' ''um'' ''./data'' =
       Inr {''2024-01-02''}"
proof -
  let ?files = "[zip_key ''2024-01-01'', zip_key ''2024-01-02'']"
  have h: "get_existing_files small_bucket = Inr ?files"
    by code_simp
  have l: "get_local_dates one_day_store ''./data'' ''BTCUSDT'' ''um'' = {''2024-01-01''}"
    by code_simp
  have r: "set (map extract_date_from_filename ?files) = {''2024-01-01'', ''2024-01-02''}"
    by code_simp
  from missing_dates_is_set_difference
    [where b = small_bucket and existing_files = ?files and store = one_day_store
       and symbol = "''BTCUSDT''" and market = "''um''" and base_extract_to = "''./data''"] h
  have "get_new_data_missing small_bucket one_day_store ''BTCUSDT'' ''um'' ''./data'' =
      Inr (set (map extract_date_from_filename ?files)
             - get_local_dates one_day_store ''./data'' ''BTCUSDT'' ''um'')"
    by blast
  with h l r show ?thesis by simp
qed

text \<open>
  C3 does not hold for every corrupt payload. Members are extracted straight into
  the final directory, so an archive that opens but holds a member with a wrong
  checksum leaves that member's file behind: the failure is printed, and the next
  scan reports the date.
\<close>

theorem corrupt_member_counterexample:
  "get_local_dates empty_store ''./data'' ''BTCUSDT'' ''um'' = {}
   \<and> printed (download_and_extract_zip bad_crc_server ''BTCUSDT'' (2024, 1, 2) ''um''
        ''./data'' empty_store) = [''Failed to extract '' @ jan2_url]
   \<and> get_local_dates
        (store_after (download_and_extract_zip bad_crc_server ''BTCUSDT'' (2024, 1, 2) ''um''
           ''./data'' empty_store))
        ''./data'' ''BTCUSDT'' ''um'' = {''2024-01-02''}"
  by code_simp

text \<open>
  C3, as the code has it. When the download fails or the payload is not an archive
  at all, nothing is written: the store, and with it the set of local dates of
  every directory, is as before.
\<close>

theorem failed_fetch_leaves_store:
  assumes "http (archive_url symbol market (strftime_ymd dt)) = TransferFailed
     \<or> (\<exists>status body. http (archive_url symbol market (strftime_ymd dt)) = Response status body
           \<and> (400 \<le> status \<and> status < 600 \<or> body = NotZip))"
  shows "store_after (download_and_extract_zip http symbol dt market base_extract_to store) = store
     \<and> get_local_dates
         (store_after (download_and_extract_zip http symbol dt market base_extract_to store))
         base_path symbol' market'
       = get_local_dates store base_path symbol' market'"
proof -
  have "store_after (download_and_extract_zip http symbol dt market base_extract_to store) = store"
    using assms by (auto simp: download_and_extract_zip_def Let_def)
  then show ?thesis by simp
qed

theorem failed_fetch_leaves_store_witness:
  "not_found_server (archive_url ''BTCUSDT'' ''um'' (strftime_ymd (2024, 1, 2))) = Response 404 NotZip
   \<and> store_after (download_and_extract_zip not_found_server ''BTCUSDT'' (2024, 1, 2) ''um''
        ''./data'' one_day_store) = one_day_store
   \<and> get_local_dates
        (store_after (download_and_extract_zip not_found_server ''BTCUSDT'' (2024, 1, 2) ''um''
           ''./data'' one_day_store))
        ''./data'' ''BTCUSDT'' ''um'' = {''2024-01-01''}"
proof -
  let ?url = "archive_url ''BTCUSDT'' ''um'' (strftime_ymd (2024, 1, 2))"
  have h: "not_found_server ?url = Response 404 NotZip"
    by (simp add: not_found_server_def)
  then have a: "not_found_server ?url = TransferFailed
     \<or> (\<exists>status body. not_found_server ?url = Response status body
           \<and> (400 \<le> status \<and> status < 600 \<or> body = NotZip))"
    by simp
  have l: "get_local_dates one_day_store ''./data'' ''BTCUSDT'' ''um'' = {''2024-01-01''}"
    by code_simp
  from failed_fetch_leaves_store
    [where http = not_found_server and symbol = "''BTCUSDT''" and market = "''um''"
       and dt = "(2024, 1, 2)" and base_extract_to = "''./data''" and store = one_day_store
       and base_path = "''./data''" and symbol' = "''BTCUSDT''" and market' = "''um''"] a h l
  show ?thesis by simp
qed

text \<open>
  C4 does not hold as stated: an exception can leave the function. A damaged
  compressed stream raises \<^verbatim>\<open>zlib.error\<close>, which the \<^verbatim>\<open>try\<close> does not
  catch.
\<close>

theorem damaged_stream_escapes_counterexample:
  "raised (download_and_extract_zip bad_stream_server ''BTCUSDT'' (2024, 1, 2) ''um''
     ''./data'' empty_store) = Some (ZlibError ''Error -3 while decompressing data'')"
  by code_simp

lemma extractall_raised:
  "extractall ms dir = (dir', Some e) \<Longrightarrow>
     (\<exists>msg. e = BadZipFile msg) \<or> (\<exists>msg. e = ZlibError msg)"
  by (induction ms arbitrary: dir) (auto split: member_state.splits)

text \<open>
  C4, as the code has it. The function has no outcome value: it returns
  \<^verbatim>\<open>None\<close> on every path that returns and reports a failure by printing. A failed
  transfer or an error status, 404 included, prints the download line; a payload
  that is no archive prints the extraction line; \<^verbatim>\<open>RequestException\<close> and
  \<^verbatim>\<open>BadZipFile\<close> never leave the function. The printed line is recorded up to
  the URL; the text of the exception follows it.
\<close>

theorem caught_failures_are_printed:
  "(http (archive_url symbol market (strftime_ymd dt)) = TransferFailed
      \<or> (\<exists>status body. http (archive_url symbol market (strftime_ymd dt)) = Response status body
            \<and> 400 \<le> status \<and> status < 600)
     \<longrightarrow> raised (download_and_extract_zip http symbol dt market base_extract_to store) = None
         \<and> printed (download_and_extract_zip http symbol dt market base_extract_to store) =
             [''Failed to download '' @ archive_url symbol market (strftime_ymd dt)])
   \<and> ((\<exists>status. http (archive_url symbol market (strftime_ymd dt)) = Response status NotZip
            \<and> \<not> (400 \<le> status \<and> status < 600))
     \<longrightarrow> raised (download_and_extract_zip http symbol dt market base_extract_to store) = None
         \<and> printed (download_and_extract_zip http symbol dt market base_extract_to store) =
             [''Failed to extract '' @ archive_url symbol market (strftime_ymd dt)])
   \<and> raised (download_and_extract_zip http symbol dt market base_extract_to store)
        \<noteq> Some (RequestException msg)
   \<and> raised (download_and_extract_zip http symbol dt market base_extract_to store)
        \<noteq> Some (BadZipFile msg)"
proof (intro conjI impI)
  let ?res = "download_and_extract_zip http symbol dt market base_extract_to store"
  show "raised ?res \<noteq> Some (RequestException msg)"
    by (auto simp: download_and_extract_zip_def Let_def
        split: http_response.splits payload.splits prod.splits option.splits py_error.splits
        dest: extractall_raised)
  show "raised ?res \<noteq> Some (BadZipFile msg)"
    by (auto simp: download_and_extract_zip_def Let_def
        split: http_response.splits payload.splits prod.splits option.splits py_error.splits)
qed (auto simp: download_and_extract_zip_def Let_def)

theorem caught_failures_are_printed_witness:
  "not_found_server jan2_url = Response 404 NotZip
   \<and> raised (download_and_extract_zip not_found_server ''BTCUSDT'' (2024, 1, 2) ''um''
        ''./data'' empty_store) = None
   \<and> printed (download_and_extract_zip not_found_server ''BTCUSDT'' (2024, 1, 2) ''um''
        ''./data'' empty_store) = [''Failed to download '' @ jan2_url]"
proof -
  have u: "archive_url ''BTCUSDT'' ''um'' (strftime_ymd (2024, 1, 2)) = jan2_url"
    by code_simp
  have h: "not_found_server jan2_url = Response 404 NotZip"
    by (simp add: not_found_server_def)
  then have a: "not_found_server (archive_url ''BTCUSDT'' ''um'' (strftime_ymd (2024, 1, 2)))
        = TransferFailed
     \<or> (\<exists>status body.
           not_found_server (archive_url ''BTCUSDT'' ''um'' (strftime_ymd (2024, 1, 2)))
             = Response status body \<and> 400 \<le> status \<and> status < 600)"
    by (simp add: not_found_server_def)
  from caught_failures_are_printed
    [where http = not_found_server and symbol = "''BTCUSDT''" and market = "''um''"
       and dt = "(2024, 1, 2)" and base_extract_to = "''./data''" and store = empty_store] a
  have "raised (download_and_extract_zip not_found_server ''BTCUSDT'' (2024, 1, 2) ''um''
          ''./data'' empty_store) = None
      \<and> printed (download_and_extract_zip not_found_server ''BTCUSDT'' (2024, 1, 2) ''um''
          ''./data'' empty_store) =
          [''Failed to download '' @ archive_url ''BTCUSDT'' ''um'' (strftime_ymd (2024, 1, 2))]"
    by blast
  with u h show ?thesis by simp
qed

text \<open>
  C7 does not hold when the store caps the response: one listing request is sent
  and nothing follows a truncated response, so the archive of the second day, which
  lies beyond the cap, is not returned.
\<close>

theorem capped_listing_counterexample:
  "get_existing_files capped_bucket = Inr [zip_key ''2024-01-01'']
   \<and> zip_key ''2024-01-02'' \<in> set (objects capped_bucket)
   \<and> endswith (zip_key ''2024-01-02'') ''.zip''"
  by code_simp

text \<open>
  C7, as the code has it. The result is the archive keys of the first response; it
  holds every published archive when the store did not cap the listing.
\<close>

theorem first_response_only:
  "reachable b \<Longrightarrow>
   get_existing_files b =
     Inr (filter (\<lambda>key. endswith key ''.zip'') (take (max_keys b) (objects b)))
   \<and> (length (objects b) \<le> max_keys b \<longrightarrow>
        get_existing_files b = Inr (filter (\<lambda>key. endswith key ''.zip'') (objects b)))"
  by (simp add: get_existing_files_def requests_get_listing_def)

theorem first_response_only_witness:
  "reachable small_bucket \<and> length (objects small_bucket) \<le> max_keys small_bucket
   \<and> get_existing_files small_bucket = Inr [zip_key ''2024-01-01'', zip_key ''2024-01-02'']"
proof -
  have r: "reachable small_bucket"
    by (simp add: small_bucket_def)
  have n: "length (objects small_bucket) \<le> max_keys small_bucket"
    by (simp add: small_bucket_def published_keys_def)
  have f: "filter (\<lambda>key. endswith key ''.zip'') (objects small_bucket)
      = [zip_key ''2024-01-01'', zip_key ''2024-01-02'']"
    by code_simp
  from first_response_only [OF r] r n f show ?thesis by simp
qed

end
